theory Spec2Isabelle
  imports Complex_Main
begin

section \<open>JavaScript values used by \<^verbatim>\<open>src/utils.js\<close>\<close>

subsection \<open>Numbers\<close>

text \<open>
  A JavaScript number is modelled as \<open>NaN\<close>, one of the two infinities, or a finite
  value with exact rational arithmetic. The rounding of IEEE doubles and their overflow to
  an infinity are not modelled, and the two zeros are one value (the program never
  observes the sign of a zero).
\<close>

datatype jsnum = NaN | NInf | Fin rat | PInf

fun num_neg :: "jsnum \<Rightarrow> jsnum" where
  "num_neg NaN = NaN"
| "num_neg NInf = PInf"
| "num_neg (Fin a) = Fin (- a)"
| "num_neg PInf = NInf"

text \<open>The operator \<^verbatim>\<open>+\<close> on two numbers.\<close>

fun num_add :: "jsnum \<Rightarrow> jsnum \<Rightarrow> jsnum" where
  "num_add NaN _ = NaN"
| "num_add _ NaN = NaN"
| "num_add (Fin a) (Fin b) = Fin (a + b)"
| "num_add PInf NInf = NaN"
| "num_add NInf PInf = NaN"
| "num_add PInf _ = PInf"
| "num_add _ PInf = PInf"
| "num_add NInf _ = NInf"
| "num_add _ NInf = NInf"

text \<open>The operator \<^verbatim>\<open>-\<close> on two numbers.\<close>

definition num_sub :: "jsnum \<Rightarrow> jsnum \<Rightarrow> jsnum" where
  "num_sub a b = num_add a (num_neg b)"

text \<open>The sign of a number that is not \<open>NaN\<close>: -1, 0 or 1.\<close>

fun num_sgn :: "jsnum \<Rightarrow> int" where
  "num_sgn NaN = 0"
| "num_sgn NInf = - 1"
| "num_sgn (Fin a) = (if a < 0 then - 1 else if a = 0 then 0 else 1)"
| "num_sgn PInf = 1"

text \<open>The operator \<^verbatim>\<open>*\<close> on two numbers.\<close>

fun num_mul :: "jsnum \<Rightarrow> jsnum \<Rightarrow> jsnum" where
  "num_mul NaN _ = NaN"
| "num_mul _ NaN = NaN"
| "num_mul (Fin a) (Fin b) = Fin (a * b)"
| "num_mul a b =
     (if num_sgn a * num_sgn b = 0 then NaN
      else if num_sgn a * num_sgn b < 0 then NInf else PInf)"

text \<open>The comparison \<^verbatim>\<open><\<close> on two numbers: false as soon as one side is \<open>NaN\<close>.\<close>

fun num_lt :: "jsnum \<Rightarrow> jsnum \<Rightarrow> bool" where
  "num_lt NaN _ = False"
| "num_lt _ NaN = False"
| "num_lt (Fin a) (Fin b) = (a < b)"
| "num_lt NInf NInf = False"
| "num_lt NInf _ = True"
| "num_lt PInf _ = False"
| "num_lt (Fin a) PInf = True"
| "num_lt (Fin a) NInf = False"

text \<open>\<^verbatim>\<open>Math.max\<close> and \<^verbatim>\<open>Math.min\<close> of two numbers: \<open>NaN\<close> as soon as one is.\<close>

definition num_max :: "jsnum \<Rightarrow> jsnum \<Rightarrow> jsnum" where
  "num_max a b = (if a = NaN \<or> b = NaN then NaN else if num_lt a b then b else a)"

definition num_min :: "jsnum \<Rightarrow> jsnum \<Rightarrow> jsnum" where
  "num_min a b = (if a = NaN \<or> b = NaN then NaN else if num_lt b a then b else a)"

subsection \<open>Strings\<close>

text \<open>
  Strings are byte strings. White space is the ASCII white space (space, tab, line feed,
  vertical tab, form feed, carriage return).
\<close>

definition is_ws :: "char \<Rightarrow> bool" where
  "is_ws c = (c \<in> set [CHR 0x20, CHR 0x09, CHR 0x0A, CHR 0x0B, CHR 0x0C, CHR 0x0D])"

definition is_digit :: "char \<Rightarrow> bool" where
  "is_digit c = (c \<in> set ''0123456789'')"

definition digit_val :: "char \<Rightarrow> nat" where
  "digit_val c = (of_char c :: nat) - 48"

definition digit_char :: "nat \<Rightarrow> char" where
  "digit_char d = ''0123456789'' ! d"

text \<open>\<^verbatim>\<open>String.prototype.trim\<close>.\<close>

definition trim :: "string \<Rightarrow> string" where
  "trim s = rev (dropWhile is_ws (rev (dropWhile is_ws s)))"

text \<open>\<^verbatim>\<open>s.split(',')\<close>: the pieces between the commas; never the empty list.\<close>

fun split_comma :: "string \<Rightarrow> string list" where
  "split_comma [] = [[]]"
| "split_comma (c # cs) =
     (if c = CHR '','' then [] # split_comma cs
      else (case split_comma cs of
              [] \<Rightarrow> [[c]]
            | p # ps \<Rightarrow> (c # p) # ps))"

text \<open>\<^verbatim>\<open>s.replace('px', '')\<close>: the first occurrence of \<^verbatim>\<open>px\<close> is removed.\<close>

fun replace_px :: "string \<Rightarrow> string" where
  "replace_px [] = []"
| "replace_px [c] = [c]"
| "replace_px (c # d # cs) =
     (if c = CHR ''p'' \<and> d = CHR ''x'' then cs else c # replace_px (d # cs))"

text \<open>The value of a string of decimal digits.\<close>

definition digits_val :: "string \<Rightarrow> nat" where
  "digits_val ds = foldl (\<lambda>n c. 10 * n + digit_val c) 0 ds"

text \<open>The exponent part of a decimal literal: \<^verbatim>\<open>e\<close> or \<^verbatim>\<open>E\<close>, an optional sign and
  at least one digit. Returns the exponent and the rest; an incomplete exponent part is
  not consumed.\<close>

definition parse_exponent :: "string \<Rightarrow> int \<times> string" where
  "parse_exponent s =
     (case s of
        [] \<Rightarrow> (0, s)
      | e # r \<Rightarrow>
          if e = CHR ''e'' \<or> e = CHR ''E'' then
            (let neg = (r \<noteq> [] \<and> hd r = CHR ''-'');
                 r1 = (if r \<noteq> [] \<and> (hd r = CHR ''-'' \<or> hd r = CHR ''+'') then tl r else r);
                 ds = takeWhile is_digit r1
             in if ds = [] then (0, s)
                else ((if neg then - int (digits_val ds) else int (digits_val ds)),
                      dropWhile is_digit r1))
          else (0, s))"

text \<open>Ten to an integer power, as a rational.\<close>

definition pow10 :: "int \<Rightarrow> rat" where
  "pow10 e = (if e < 0 then 1 / 10 ^ nat (- e) else 10 ^ nat e)"

text \<open>The longest prefix of the string that is a signed decimal literal
  (\<^verbatim>\<open>StrDecimalLiteral\<close>: \<^verbatim>\<open>Infinity\<close>, or digits with an optional fraction and exponent),
  with its value and the rest of the string; \<open>None\<close> when no prefix is one.\<close>

definition parse_decimal :: "string \<Rightarrow> (jsnum \<times> string) option" where
  "parse_decimal s =
     (let neg = (s \<noteq> [] \<and> hd s = CHR ''-'');
          s1 = (if s \<noteq> [] \<and> (hd s = CHR ''-'' \<or> hd s = CHR ''+'') then tl s else s)
      in if take 8 s1 = ''Infinity'' then Some (if neg then NInf else PInf, drop 8 s1)
         else
           (let ip = takeWhile is_digit s1;
                s2 = dropWhile is_digit s1;
                dot = (s2 \<noteq> [] \<and> hd s2 = CHR ''.'');
                fp = (if dot then takeWhile is_digit (tl s2) else []);
                s3 = (if dot then dropWhile is_digit (tl s2) else s2)
            in if ip = [] \<and> fp = [] then None
               else
                 (let (e, s4) = parse_exponent s3;
                      m = rat_of_nat (digits_val (ip @ fp)) * pow10 (e - int (length fp))
                  in Some (Fin (if neg then - m else m), s4))))"

text \<open>\<^verbatim>\<open>parseFloat\<close> of a string: leading white space is skipped, the longest prefix
  that is a decimal literal gives the value, and \<open>NaN\<close> is returned when there is none.\<close>

definition parseFloat :: "string \<Rightarrow> jsnum" where
  "parseFloat s =
     (case parse_decimal (dropWhile is_ws s) of
        None \<Rightarrow> NaN
      | Some (v, _) \<Rightarrow> v)"

text \<open>The decimal digits of a natural number.\<close>

fun nat_digits :: "nat \<Rightarrow> string" where
  "nat_digits n =
     (if n < 10 then [digit_char n] else nat_digits (n div 10) @ [digit_char (n mod 10)])"

declare nat_digits.simps [simp del]

text \<open>The digits of a fraction \<open>0 \<le> r < 1\<close>, at most as many as the first argument.\<close>

fun frac_digits :: "nat \<Rightarrow> rat \<Rightarrow> string" where
  "frac_digits 0 r = []"
| "frac_digits (Suc k) r =
     (if r = 0 then []
      else digit_char (nat \<lfloor>r * 10\<rfloor>) # frac_digits k (r * 10 - of_int \<lfloor>r * 10\<rfloor>))"

text \<open>
  \<^verbatim>\<open>Number::toString\<close>, the conversion a template literal applies to a number. For a
  finite value it gives the positional decimal notation: this is what JavaScript prints
  for an integer below \<open>10^21\<close> and for a value with a short terminating decimal
  expansion that is not below \<open>10^-6\<close> in magnitude; the exponent notation of the other
  values is not modelled.
\<close>

definition num_to_string :: "jsnum \<Rightarrow> string" where
  "num_to_string x =
     (case x of
        NaN \<Rightarrow> ''NaN''
      | PInf \<Rightarrow> ''Infinity''
      | NInf \<Rightarrow> ''-Infinity''
      | Fin q \<Rightarrow>
          (let a = \<bar>q\<bar>; i = \<lfloor>a\<rfloor>; f = a - of_int i
           in (if q < 0 then ''-'' else '''') @ nat_digits (nat i) @
              (if f = 0 then '''' else ''.'' @ frac_digits 20 f)))"

subsection \<open>Values, \<^verbatim>\<open>typeof\<close>, truthiness and conversions\<close>

text \<open>
  The values the functions receive and produce. An object is the list of its own
  properties in insertion order; an array is the list of its elements.
\<close>

datatype jsval =
    Undefined
  | Null
  | Bool bool
  | Num jsnum
  | Str string
  | Arr "jsval list"
  | Obj "(string \<times> jsval) list"

type_synonym obj = "(string \<times> jsval) list"

fun typeof :: "jsval \<Rightarrow> string" where
  "typeof Undefined = ''undefined''"
| "typeof Null = ''object''"
| "typeof (Bool _) = ''boolean''"
| "typeof (Num _) = ''number''"
| "typeof (Str _) = ''string''"
| "typeof (Arr _) = ''object''"
| "typeof (Obj _) = ''object''"

text \<open>What \<^verbatim>\<open>if (v)\<close>, \<^verbatim>\<open>v && w\<close> and \<^verbatim>\<open>v || w\<close> test.\<close>

fun truthy :: "jsval \<Rightarrow> bool" where
  "truthy Undefined = False"
| "truthy Null = False"
| "truthy (Bool b) = b"
| "truthy (Num n) = (n \<noteq> NaN \<and> n \<noteq> Fin 0)"
| "truthy (Str s) = (s \<noteq> [])"
| "truthy (Arr _) = True"
| "truthy (Obj _) = True"

text \<open>\<^verbatim>\<open>Array.prototype.join\<close> with the separator \<^verbatim>\<open>","\<close>, on the converted elements.\<close>

fun join_comma :: "string list \<Rightarrow> string" where
  "join_comma [] = []"
| "join_comma [x] = x"
| "join_comma (x # y # r) = x @ CHR '','' # join_comma (y # r)"

text \<open>\<^verbatim>\<open>ToString\<close>, as a template literal applies it. In an array, \<^verbatim>\<open>null\<close> and
  \<^verbatim>\<open>undefined\<close> elements give the empty string.\<close>

fun to_string :: "jsval \<Rightarrow> string" where
  "to_string Undefined = ''undefined''"
| "to_string Null = ''null''"
| "to_string (Bool b) = (if b then ''true'' else ''false'')"
| "to_string (Num n) = num_to_string n"
| "to_string (Str s) = s"
| "to_string (Arr xs) =
     join_comma (map (\<lambda>x. if x = Undefined \<or> x = Null then [] else to_string x) xs)"
| "to_string (Obj _) = ''[object Object]''"

text \<open>The value of a digit in a radix up to 16; 16 for a character that is no digit.\<close>

definition hex_val :: "char \<Rightarrow> nat" where
  "hex_val c =
     (if is_digit c then digit_val c
      else if c \<in> set ''abcdef'' then (of_char c :: nat) - 87
      else if c \<in> set ''ABCDEF'' then (of_char c :: nat) - 55
      else 16)"

definition radix_number :: "nat \<Rightarrow> string \<Rightarrow> jsnum" where
  "radix_number base ds =
     (if ds \<noteq> [] \<and> list_all (\<lambda>c. hex_val c < base) ds
      then Fin (rat_of_nat (foldl (\<lambda>n c. base * n + hex_val c) 0 ds))
      else NaN)"

text \<open>\<^verbatim>\<open>StringToNumber\<close>: the whole trimmed string must be a numeric literal; the
  empty string is 0.\<close>

definition string_to_number :: "string \<Rightarrow> jsnum" where
  "string_to_number s =
     (let t = trim s
      in if t = [] then Fin 0
         else if take 2 t = ''0x'' \<or> take 2 t = ''0X'' then radix_number 16 (drop 2 t)
         else if take 2 t = ''0o'' \<or> take 2 t = ''0O'' then radix_number 8 (drop 2 t)
         else if take 2 t = ''0b'' \<or> take 2 t = ''0B'' then radix_number 2 (drop 2 t)
         else (case parse_decimal t of
                 None \<Rightarrow> NaN
               | Some (v, r) \<Rightarrow> if r = [] then v else NaN))"

text \<open>\<^verbatim>\<open>ToNumber\<close>; an array or object is first converted to its string.\<close>

fun to_number :: "jsval \<Rightarrow> jsnum" where
  "to_number Undefined = NaN"
| "to_number Null = Fin 0"
| "to_number (Bool b) = (if b then Fin 1 else Fin 0)"
| "to_number (Num n) = n"
| "to_number (Str s) = string_to_number s"
| "to_number (Arr xs) = string_to_number (to_string (Arr xs))"
| "to_number (Obj kvs) = string_to_number (to_string (Obj kvs))"

text \<open>\<^verbatim>\<open>ToPrimitive\<close>: an array or object becomes its string.\<close>

fun to_primitive :: "jsval \<Rightarrow> jsval" where
  "to_primitive (Arr xs) = Str (to_string (Arr xs))"
| "to_primitive (Obj kvs) = Str (to_string (Obj kvs))"
| "to_primitive v = v"

text \<open>The order of strings under \<^verbatim>\<open><\<close>: lexicographic on the character codes.\<close>

fun str_lt :: "string \<Rightarrow> string \<Rightarrow> bool" where
  "str_lt [] [] = False"
| "str_lt [] (b # bs) = True"
| "str_lt (a # as) [] = False"
| "str_lt (a # as) (b # bs) =
     (if a = b then str_lt as bs else (of_char a :: nat) < of_char b)"

text \<open>The operators \<^verbatim>\<open>+\<close>, \<^verbatim>\<open>-\<close> and \<^verbatim>\<open><\<close> on values, and \<^verbatim>\<open>Math.max\<close>,
  \<^verbatim>\<open>Math.min\<close> of two values.\<close>

definition js_add :: "jsval \<Rightarrow> jsval \<Rightarrow> jsval" where
  "js_add a b =
     (let pa = to_primitive a; pb = to_primitive b
      in if typeof pa = ''string'' \<or> typeof pb = ''string''
         then Str (to_string pa @ to_string pb)
         else Num (num_add (to_number pa) (to_number pb)))"

definition js_sub :: "jsval \<Rightarrow> jsval \<Rightarrow> jsval" where
  "js_sub a b = Num (num_sub (to_number a) (to_number b))"

definition js_lt :: "jsval \<Rightarrow> jsval \<Rightarrow> bool" where
  "js_lt a b =
     (let pa = to_primitive a; pb = to_primitive b
      in if typeof pa = ''string'' \<and> typeof pb = ''string''
         then str_lt (to_string pa) (to_string pb)
         else num_lt (to_number pa) (to_number pb))"

definition math_max :: "jsval \<Rightarrow> jsval \<Rightarrow> jsval" where
  "math_max a b = Num (num_max (to_number a) (to_number b))"

definition math_min :: "jsval \<Rightarrow> jsval \<Rightarrow> jsval" where
  "math_min a b = Num (num_min (to_number a) (to_number b))"

text \<open>Reading a property of an object (\<^verbatim>\<open>undefined\<close> when it has none of that name) and
  assigning one: an existing property keeps its place, a new one comes last.\<close>

definition get_prop :: "obj \<Rightarrow> string \<Rightarrow> jsval" where
  "get_prop ob k = (case map_of ob k of None \<Rightarrow> Undefined | Some v \<Rightarrow> v)"

fun set_prop :: "obj \<Rightarrow> string \<Rightarrow> jsval \<Rightarrow> obj" where
  "set_prop [] k v = [(k, v)]"
| "set_prop ((k', v') # r) k v =
     (if k' = k then (k, v) # r else (k', v') # set_prop r k v)"

text \<open>\<^verbatim>\<open>v.length\<close> and \<^verbatim>\<open>v[0]\<close> of a value that is not \<^verbatim>\<open>null\<close> or \<^verbatim>\<open>undefined\<close>.\<close>

fun js_length :: "jsval \<Rightarrow> jsval" where
  "js_length (Arr xs) = Num (Fin (rat_of_nat (length xs)))"
| "js_length (Str s) = Num (Fin (rat_of_nat (length s)))"
| "js_length (Obj kvs) = get_prop kvs ''length''"
| "js_length _ = Undefined"

fun js_first :: "jsval \<Rightarrow> jsval" where
  "js_first (Arr []) = Undefined"
| "js_first (Arr (x # xs)) = x"
| "js_first (Str []) = Undefined"
| "js_first (Str (c # cs)) = Str [c]"
| "js_first (Obj kvs) = get_prop kvs ''0''"
| "js_first _ = Undefined"

text \<open>What the program throws: \<^verbatim>\<open>new Error(message)\<close>, or the \<^verbatim>\<open>TypeError\<close> of the
  language (reading a property of \<^verbatim>\<open>null\<close> or \<^verbatim>\<open>undefined\<close>, calling what is not a
  function, spreading what is not iterable).\<close>

datatype error = Error string | TypeError

section \<open>The program\<close>

subsection \<open>The browser state the program reads\<close>

text \<open>
  A DOM element is modelled by what the program reads of it, the rectangle
  \<^verbatim>\<open>getBoundingClientRect()\<close> returns. The same record holds the rectangle that
  \<^verbatim>\<open>position\<close> returns. The environment holds the fields of \<^verbatim>\<open>window\<close> and of
  \<^verbatim>\<open>document.documentElement\<close> that the program reads.
\<close>

record rect =
  r_top :: jsnum
  r_left :: jsnum
  r_right :: jsnum
  r_bottom :: jsnum
  r_width :: jsnum
  r_height :: jsnum

type_synonym element = rect

record env =
  pageYOffset :: jsnum
  pageXOffset :: jsnum
  scrollTop :: jsnum
  clientTop :: jsnum
  scrollLeft :: jsnum
  clientLeft :: jsnum
  innerHeight :: jsnum
  innerWidth :: jsnum

text \<open>\<^verbatim>\<open>a || b\<close> on numbers: \<open>b\<close> when \<open>a\<close> is 0 or \<open>NaN\<close>.\<close>

definition num_or :: "jsnum \<Rightarrow> jsnum \<Rightarrow> jsnum" where
  "num_or a b = (if truthy (Num a) then a else b)"

subsection \<open>\<^verbatim>\<open>position\<close>\<close>

definition position :: "env \<Rightarrow> element \<Rightarrow> rect" where
  "position e el =
     (let pos = el;
          winTop = num_sub (num_or (pageYOffset e) (scrollTop e)) (clientTop e);
          winLeft = num_sub (num_or (pageXOffset e) (scrollLeft e)) (clientLeft e)
      in \<lparr> r_top = num_add (r_top pos) winTop,
           r_left = num_add (r_left pos) winLeft,
           r_right = num_add (r_right pos) winLeft,
           r_bottom = num_add (r_bottom pos) winTop,
           r_width = r_width pos,
           r_height = r_height pos \<rparr>)"

text \<open>The object literal that \<^verbatim>\<open>position\<close> returns, with its properties in the order
  of the source.\<close>

definition rect_obj :: "rect \<Rightarrow> obj" where
  "rect_obj r =
     [(''top'', Num (r_top r)), (''left'', Num (r_left r)), (''right'', Num (r_right r)),
      (''bottom'', Num (r_bottom r)), (''width'', Num (r_width r)),
      (''height'', Num (r_height r))]"

subsection \<open>\<^verbatim>\<open>placement\<close>\<close>

text \<open>The template literal \<^verbatim>\<open>`${x}px`\<close>.\<close>

definition px :: "jsnum \<Rightarrow> jsval" where
  "px x = Str (num_to_string x @ ''px'')"

definition placement :: "env \<Rightarrow> jsval \<Rightarrow> element \<Rightarrow> element \<Rightarrow> obj" where
  "placement e place tooltip origin =
     (let gap = Fin 12;
          tip = position e tooltip;
          pos = position e origin;
          offset0 = [(''width'', Num (r_width tip)), (''height'', Num (r_height tip))];
          offset1 =
            (if place = Str ''top'' \<or> place = Str ''bottom'' then
               set_prop offset0 ''left''
                 (px (num_sub (num_add (r_left pos) (num_mul (r_width pos) (Fin (1 / 2))))
                        (num_mul (r_width tip) (Fin (1 / 2)))))
             else if place = Str ''left'' \<or> place = Str ''right'' then
               set_prop offset0 ''top''
                 (px (num_sub (num_add (r_top pos) (num_mul (r_height pos) (Fin (1 / 2))))
                        (num_mul (r_height tip) (Fin (1 / 2)))))
             else offset0)
      in if place = Str ''top'' then
           set_prop offset1 ''top'' (px (num_sub (num_sub (r_top pos) (r_height tip)) gap))
         else if place = Str ''right'' then
           set_prop offset1 ''left'' (px (num_add (r_right pos) gap))
         else if place = Str ''bottom'' then
           set_prop offset1 ''top'' (px (num_add (num_add (r_top pos) (r_height pos)) gap))
         else if place = Str ''left'' then
           set_prop offset1 ''left'' (px (num_sub (num_sub (r_left pos) (r_width tip)) gap))
         else offset1)"

subsection \<open>\<^verbatim>\<open>opposite\<close>\<close>

text \<open>
  \<^verbatim>\<open>typeof place === 'object'\<close> holds of \<^verbatim>\<open>null\<close> too, and reading \<^verbatim>\<open>null.length\<close>
  throws a \<^verbatim>\<open>TypeError\<close>. The message of the error at the end is built from the
  argument \<open>dir\<close>, not from its first element.
\<close>

definition opposite :: "jsval \<Rightarrow> error + jsval" where
  "opposite dir =
     (if dir = Null then Inl TypeError
      else
        (let place =
               (if typeof dir = ''object'' \<and> typeof (js_length dir) = ''number'' \<and>
                   js_lt (Num (Fin 0)) (js_length dir)
                then js_first dir else dir)
         in if place = Str ''top'' then Inr (Str ''bottom'')
            else if place = Str ''bottom'' then Inr (Str ''top'')
            else if place = Str ''right'' then Inr (Str ''left'')
            else if place = Str ''left'' then Inr (Str ''right'')
            else Inl (Error (''Unknown direction: '' @ [CHR 0x22] @ to_string dir @ [CHR 0x22]))))"

subsection \<open>\<^verbatim>\<open>intersection\<close> and \<^verbatim>\<open>defaultArea\<close>\<close>

definition intersection :: "obj \<Rightarrow> obj \<Rightarrow> obj" where
  "intersection area1 area2 =
     (let area = [];
          area = set_prop area ''top'' (math_max (get_prop area1 ''top'') (get_prop area2 ''top''));
          area = set_prop area ''right''
                   (math_min (js_add (get_prop area1 ''left'') (get_prop area1 ''width''))
                             (js_add (get_prop area2 ''left'') (get_prop area2 ''width'')));
          area = set_prop area ''bottom''
                   (math_min (js_add (get_prop area1 ''top'') (get_prop area1 ''height''))
                             (js_add (get_prop area2 ''top'') (get_prop area2 ''height'')));
          area = set_prop area ''left'' (math_max (get_prop area1 ''left'') (get_prop area2 ''left''));
          area = set_prop area ''height'' (js_sub (get_prop area ''bottom'') (get_prop area ''top''));
          area = set_prop area ''width'' (js_sub (get_prop area ''right'') (get_prop area ''left''))
      in area)"

definition defaultArea :: "env \<Rightarrow> obj" where
  "defaultArea e = [(''height'', Num (innerHeight e)), (''width'', Num (innerWidth e))]"

subsection \<open>\<^verbatim>\<open>strip\<close> and \<^verbatim>\<open>amend\<close>\<close>

definition STRIP_FOR :: "string list" where
  "STRIP_FOR = [''top'', ''left'', ''right'', ''bottom'', ''width'', ''height'']"

text \<open>The body of the \<^verbatim>\<open>forEach\<close> callback, on the copy \<open>data\<close>.\<close>

definition strip_prop :: "obj \<Rightarrow> string \<Rightarrow> obj" where
  "strip_prop data prop =
     (case get_prop data prop of
        Str s \<Rightarrow> set_prop data prop (Num (parseFloat (replace_px s)))
      | _ \<Rightarrow> data)"

definition strip :: "obj \<Rightarrow> obj" where
  "strip ob = foldl strip_prop ob STRIP_FOR"

definition amend :: "obj \<Rightarrow> obj" where
  "amend area =
     (let data = strip area;
          data = (if typeof (get_prop data ''top'') \<noteq> ''number''
                  then set_prop data ''top'' (Num (Fin 0)) else data);
          data = (if typeof (get_prop data ''left'') \<noteq> ''number''
                  then set_prop data ''left'' (Num (Fin 0)) else data);
          data = (if typeof (get_prop data ''right'') \<noteq> ''number'' \<and>
                     typeof (get_prop data ''width'') = ''number''
                  then set_prop data ''right''
                         (js_add (get_prop data ''left'') (get_prop data ''width''))
                  else data);
          data = (if typeof (get_prop data ''bottom'') \<noteq> ''number'' \<and>
                     typeof (get_prop data ''height'') = ''number''
                  then set_prop data ''bottom''
                         (js_add (get_prop data ''top'') (get_prop data ''height''))
                  else data)
      in data)"

subsection \<open>\<^verbatim>\<open>overDirs\<close>\<close>

text \<open>The second argument is \<open>None\<close> for \<^verbatim>\<open>el = null\<close>, the default.\<close>

definition overDirs :: "env \<Rightarrow> obj \<Rightarrow> element option \<Rightarrow> string list" where
  "overDirs e tip0 el =
     (let tip = amend tip0;
          area = amend (defaultArea e);
          area = (case el of
                    None \<Rightarrow> area
                  | Some x \<Rightarrow> intersection area (rect_obj (position e x)));
          dirs = [];
          dirs = (if js_lt (get_prop tip ''top'') (get_prop area ''top'')
                  then dirs @ [''top''] else dirs);
          dirs = (if js_lt (get_prop area ''right'') (get_prop tip ''right'')
                  then dirs @ [''right''] else dirs);
          dirs = (if js_lt (get_prop area ''bottom'') (get_prop tip ''bottom'')
                  then dirs @ [''bottom''] else dirs);
          dirs = (if js_lt (get_prop tip ''left'') (get_prop area ''left'')
                  then dirs @ [''left''] else dirs)
      in dirs)"

subsection \<open>\<^verbatim>\<open>adjust\<close>\<close>

text \<open>The object \<^verbatim>\<open>{ offset: props, place: current }\<close>.\<close>

definition placed :: "env \<Rightarrow> element \<Rightarrow> element \<Rightarrow> jsval \<Rightarrow> jsval" where
  "placed e tooltip origin current =
     Obj [(''offset'', Obj (placement e current tooltip origin)), (''place'', current)]"

text \<open>The \<^verbatim>\<open>while\<close> loop over \<open>tries\<close>, with the variable \<open>first\<close>
  (\<open>Undefined\<close> until it is assigned), and the \<^verbatim>\<open>return first\<close> after it.\<close>

fun adjust_loop :: "env \<Rightarrow> element \<Rightarrow> element \<Rightarrow> jsval \<Rightarrow> jsval list \<Rightarrow> jsval" where
  "adjust_loop e tooltip origin first [] = first"
| "adjust_loop e tooltip origin first (current # tries) =
     (let props = placement e current tooltip origin;
          first = (if typeof first = ''undefined''
                   then Obj [(''offset'', Obj props), (''place'', current)] else first);
          dirs = overDirs e props None
      in if length dirs = 0
         then Obj [(''offset'', Obj props), (''place'', current)]
         else adjust_loop e tooltip origin first tries)"

text \<open>Lines 185 to 187: a string is split and trimmed when \<open>auto\<close> is set. The result
  is a new array; any other \<open>place\<close> is kept as it is.\<close>

definition split_place :: "bool \<Rightarrow> jsval \<Rightarrow> jsval" where
  "split_place auto place =
     (case place of
        Str s \<Rightarrow> if auto then Arr (map (\<lambda>p. Str (trim p)) (split_comma s)) else place
      | _ \<Rightarrow> place)"

text \<open>Lines 188 to 190, \<^verbatim>\<open>if (place.length === 1) place.push(opposite(place))\<close>: the
  argument of \<^verbatim>\<open>push\<close> is evaluated before the call, so an error of \<^verbatim>\<open>opposite\<close> comes
  first; only an array has a \<^verbatim>\<open>push\<close>. Returns the value of \<open>place\<close> after the
  statement.\<close>

definition push_opposite :: "jsval \<Rightarrow> error + jsval" where
  "push_opposite place =
     (if place = Undefined \<or> place = Null then Inl TypeError
      else if js_length place = Num (Fin 1) then
        (case opposite place of
           Inl err \<Rightarrow> Inl err
         | Inr opp \<Rightarrow>
             (case place of
                Arr xs \<Rightarrow> Inr (Arr (xs @ [opp]))
              | _ \<Rightarrow> Inl TypeError))
      else Inr place)"

text \<open>The spread \<^verbatim>\<open>[ ...place ]\<close>: the elements of an array, the characters of a string.\<close>

definition spread :: "jsval \<Rightarrow> error + jsval list" where
  "spread place =
     (case place of
        Arr xs \<Rightarrow> Inr xs
      | Str s \<Rightarrow> Inr (map (\<lambda>c. Str [c]) s)
      | _ \<Rightarrow> Inl TypeError)"

text \<open>
  \<^verbatim>\<open>adjust\<close> returns a pair: the caller's argument \<open>place\<close> as it is after the call
  (the \<^verbatim>\<open>push\<close> changes the caller's array; the array made from a string is a new one,
  and the loop works on the copy \<open>tries\<close>), and the outcome, an error or the returned
  value.
\<close>

definition adjust :: "env \<Rightarrow> jsval \<Rightarrow> element \<Rightarrow> element \<Rightarrow> bool \<Rightarrow> jsval \<times> (error + jsval)" where
  "adjust e place tooltip origin auto =
     (let place1 = split_place auto place
      in case push_opposite place1 of
           Inl err \<Rightarrow> (place, Inl err)
         | Inr place2 \<Rightarrow>
             (let arg = (if place1 = place then place2 else place)
              in case spread place2 of
                   Inl err \<Rightarrow> (arg, Inl err)
                 | Inr tries \<Rightarrow> (arg, Inr (adjust_loop e tooltip origin Undefined tries))))"

subsection \<open>\<^verbatim>\<open>resolve\<close>\<close>

text \<open>\<^verbatim>\<open>v.payload\<close> and \<^verbatim>\<open>v.name\<close> of a truthy value: a property of an object;
  strings, arrays, numbers and booleans have neither.\<close>

fun member :: "jsval \<Rightarrow> string \<Rightarrow> jsval" where
  "member (Obj kvs) k = get_prop kvs k"
| "member _ k = Undefined"

definition resolve :: "jsval \<Rightarrow> jsval" where
  "resolve ob =
     (let names =
            (if truthy ob \<and> truthy (member ob ''payload'') \<and>
                truthy (member (member ob ''payload'') ''name'')
             then member (member ob ''payload'') ''name''
             else if truthy ob \<and> truthy (member ob ''name'') then member ob ''name''
             else Arr [Str ''default''])
      in if typeof names = ''string'' then Arr [names] else names)"

section \<open>Notions used in the statements\<close>

text \<open>What \<^verbatim>\<open>strip\<close> makes of the value of one of the six properties.\<close>

definition stripped :: "jsval \<Rightarrow> jsval" where
  "stripped v = (case v of Str s \<Rightarrow> Num (parseFloat (replace_px s)) | _ \<Rightarrow> v)"

text \<open>The four directions of the data model.\<close>

definition directions :: "string list" where
  "directions = [''top'', ''right'', ''bottom'', ''left'']"




text \<open>The candidate \<open>c\<close> has zero violated edges against the viewport.\<close>

definition fits :: "env \<Rightarrow> element \<Rightarrow> element \<Rightarrow> jsval \<Rightarrow> bool" where
  "fits e tooltip origin c = (overDirs e (placement e c tooltip origin) None = [])"

text \<open>The four inequalities of the overflow check against the viewport, on an amended
  tooltip rectangle: the area has top and left 0, and the width and height of the window
  as right and bottom.\<close>

definition violated :: "env \<Rightarrow> obj \<Rightarrow> string \<Rightarrow> bool" where
  "violated e tip d =
     (d = ''top'' \<and> js_lt (get_prop tip ''top'') (Num (Fin 0)) \<or>
      d = ''right'' \<and> js_lt (Num (innerWidth e)) (get_prop tip ''right'') \<or>
      d = ''bottom'' \<and> js_lt (Num (innerHeight e)) (get_prop tip ''bottom'') \<or>
      d = ''left'' \<and> js_lt (get_prop tip ''left'') (Num (Fin 0)))"

text \<open>A number divided by 2.\<close>

definition half :: "jsnum \<Rightarrow> jsnum" where
  "half x = (case x of Fin q \<Rightarrow> Fin (q / 2) | _ \<Rightarrow> x)"

text \<open>
  The reading of \<^verbatim>\<open>resolve\<close> in which a field counts as soon as it is present, whatever
  its value; \<open>resolve\<close> above is the source, which tests the value of the field.
\<close>

fun has_prop :: "jsval \<Rightarrow> string \<Rightarrow> bool" where
  "has_prop (Obj kvs) k = (map_of kvs k \<noteq> None)"
| "has_prop _ k = False"

definition resolve_present :: "jsval \<Rightarrow> jsval" where
  "resolve_present ob =
     (let names =
            (if has_prop ob ''payload'' \<and> has_prop (member ob ''payload'') ''name''
             then member (member ob ''payload'') ''name''
             else if has_prop ob ''name'' then member ob ''name''
             else Arr [Str ''default''])
      in if typeof names = ''string'' then Arr [names] else names)"

subsection \<open>Concrete inputs\<close>

text \<open>A window of 1000 by 1000 pixels that is not scrolled.\<close>

definition viewport1000 :: env where
  "viewport1000 = \<lparr> pageYOffset = Fin 0, pageXOffset = Fin 0, scrollTop = Fin 0,
     clientTop = Fin 0, scrollLeft = Fin 0, clientLeft = Fin 0,
     innerHeight = Fin 1000, innerWidth = Fin 1000 \<rparr>"

text \<open>An anchor at \<^verbatim>\<open>{top:100, left:100, width:50, height:20}\<close>, a tooltip of size
  \<^verbatim>\<open>{width:30, height:10}\<close>, and anchors too close to the top edge and to the top left
  corner of the window for a tooltip above or to the left of them.\<close>

definition anchor_ex :: rect where
  "anchor_ex = \<lparr> r_top = Fin 100, r_left = Fin 100, r_right = Fin 150, r_bottom = Fin 120,
     r_width = Fin 50, r_height = Fin 20 \<rparr>"

definition tooltip_ex :: rect where
  "tooltip_ex = \<lparr> r_top = Fin 0, r_left = Fin 0, r_right = Fin 30, r_bottom = Fin 10,
     r_width = Fin 30, r_height = Fin 10 \<rparr>"

definition anchor_high :: rect where
  "anchor_high = \<lparr> r_top = Fin 5, r_left = Fin 100, r_right = Fin 150, r_bottom = Fin 25,
     r_width = Fin 50, r_height = Fin 20 \<rparr>"

definition anchor_corner :: rect where
  "anchor_corner = \<lparr> r_top = Fin 5, r_left = Fin 5, r_right = Fin 55, r_bottom = Fin 25,
     r_width = Fin 50, r_height = Fin 20 \<rparr>"

text \<open>A tooltip offset 5 pixels above the top edge, and two rectangles that do not
  overlap.\<close>

definition offset_above :: obj where
  "offset_above =
     [(''width'', Num (Fin 30)), (''height'', Num (Fin 10)), (''left'', Str ''110px''),
      (''top'', Str ''-5px'')]"

definition rect_a :: obj where
  "rect_a = [(''top'', Num (Fin 0)), (''left'', Num (Fin 0)), (''width'', Num (Fin 10)),
     (''height'', Num (Fin 10)), (''right'', Num (Fin 10)), (''bottom'', Num (Fin 10))]"

definition rect_b :: obj where
  "rect_b = [(''top'', Num (Fin 20)), (''left'', Num (Fin 20)), (''width'', Num (Fin 10)),
     (''height'', Num (Fin 10)), (''right'', Num (Fin 30)), (''bottom'', Num (Fin 30))]"

section \<open>Properties of the values\<close>

lemma num_add_zero_left: "num_add (Fin 0) w = w"
  by (cases w) simp_all

lemma num_mul_half: "num_mul x (Fin (1 / 2)) = half x"
  by (cases x) (simp_all add: half_def)

lemma num_lt_trichotomy:
  "a \<noteq> NaN \<Longrightarrow> b \<noteq> NaN \<Longrightarrow> num_lt a b \<or> a = b \<or> num_lt b a"
  by (cases a; cases b) auto

lemma num_lt_asym: "num_lt a b \<Longrightarrow> \<not> num_lt b a"
  by (cases a; cases b) auto

lemma num_max_commute: "num_max a b = num_max b a"
  using num_lt_trichotomy [of a b] num_lt_asym [of a b] num_lt_asym [of b a]
  by (auto simp: num_max_def)

lemma num_min_commute: "num_min a b = num_min b a"
  using num_lt_trichotomy [of a b] num_lt_asym [of a b] num_lt_asym [of b a]
  by (auto simp: num_min_def)

lemma js_add_Num: "js_add (Num a) (Num b) = Num (num_add a b)"
  by (simp add: js_add_def)

lemma typeof_number_iff: "(typeof v = ''number'') = (\<exists>n. v = Num n)"
  by (cases v) simp_all

lemma px_110: "px (Fin 110) = Str ''110px''"
  by code_simp

lemma px_78: "px (Fin 78) = Str ''78px''"
  by code_simp

subsection \<open>Objects\<close>

lemma get_set_same: "get_prop (set_prop ob k v) k = v"
  by (induction ob) (auto simp: get_prop_def)

lemma get_set_other: "k' \<noteq> k \<Longrightarrow> get_prop (set_prop ob k v) k' = get_prop ob k'"
  by (induction ob) (auto simp: get_prop_def)

lemma get_set: "get_prop (set_prop ob k v) k' = (if k' = k then v else get_prop ob k')"
  by (simp add: get_set_same get_set_other)

lemma get_prop_absent: "map_of ob k = None \<Longrightarrow> get_prop ob k = Undefined"
  by (simp add: get_prop_def)

section \<open>Properties of the functions\<close>

subsection \<open>\<^verbatim>\<open>strip\<close> and \<^verbatim>\<open>amend\<close>, property by property\<close>

lemma in_STRIP_FOR [simp]:
  "''top'' \<in> set STRIP_FOR" "''left'' \<in> set STRIP_FOR" "''right'' \<in> set STRIP_FOR"
  "''bottom'' \<in> set STRIP_FOR" "''width'' \<in> set STRIP_FOR" "''height'' \<in> set STRIP_FOR"
  by (simp_all add: STRIP_FOR_def)

lemma stripped_Num [simp]: "stripped (Num n) = Num n"
  by (simp add: stripped_def)

lemma stripped_Undefined [simp]: "stripped Undefined = Undefined"
  by (simp add: stripped_def)

lemma stripped_Str [simp]: "stripped (Str s) = Num (parseFloat (replace_px s))"
  by (simp add: stripped_def)

lemma get_strip_prop:
  "get_prop (strip_prop data p) k =
     (if k = p then stripped (get_prop data p) else get_prop data k)"
  by (cases "get_prop data p") (simp_all add: strip_prop_def stripped_def get_set)

lemma get_strip:
  "get_prop (strip ob) k =
     (if k \<in> set STRIP_FOR then stripped (get_prop ob k) else get_prop ob k)"
  by (simp add: strip_def STRIP_FOR_def get_strip_prop)

lemma amend_top:
  "get_prop (amend r) ''top'' =
     (if typeof (get_prop (strip r) ''top'') = ''number'' then get_prop (strip r) ''top''
      else Num (Fin 0))"
  by (simp add: amend_def Let_def get_set)

lemma amend_left:
  "get_prop (amend r) ''left'' =
     (if typeof (get_prop (strip r) ''left'') = ''number'' then get_prop (strip r) ''left''
      else Num (Fin 0))"
  by (simp add: amend_def Let_def get_set)

lemma amend_width: "get_prop (amend r) ''width'' = get_prop (strip r) ''width''"
  by (simp add: amend_def Let_def get_set)

lemma amend_height: "get_prop (amend r) ''height'' = get_prop (strip r) ''height''"
  by (simp add: amend_def Let_def get_set)

lemma amend_right:
  "get_prop (amend r) ''right'' =
     (if typeof (get_prop (strip r) ''right'') \<noteq> ''number'' \<and>
         typeof (get_prop (strip r) ''width'') = ''number''
      then js_add (get_prop (amend r) ''left'') (get_prop (strip r) ''width'')
      else get_prop (strip r) ''right'')"
  by (simp add: amend_def Let_def get_set)

lemma amend_bottom:
  "get_prop (amend r) ''bottom'' =
     (if typeof (get_prop (strip r) ''bottom'') \<noteq> ''number'' \<and>
         typeof (get_prop (strip r) ''height'') = ''number''
      then js_add (get_prop (amend r) ''top'') (get_prop (strip r) ''height'')
      else get_prop (strip r) ''bottom'')"
  by (simp add: amend_def Let_def get_set)

lemma get_defaultArea:
  "get_prop (defaultArea e) k =
     (if k = ''height'' then Num (innerHeight e)
      else if k = ''width'' then Num (innerWidth e) else Undefined)"
  by (simp add: defaultArea_def get_prop_def)

lemma area_amended:
  "get_prop (amend (defaultArea e)) ''top'' = Num (Fin 0) \<and>
   get_prop (amend (defaultArea e)) ''left'' = Num (Fin 0) \<and>
   get_prop (amend (defaultArea e)) ''right'' = Num (innerWidth e) \<and>
   get_prop (amend (defaultArea e)) ''bottom'' = Num (innerHeight e)"
  by (simp add: amend_top amend_left amend_right amend_bottom get_strip get_defaultArea
      js_add_Num num_add_zero_left)

subsection \<open>\<^verbatim>\<open>opposite\<close>, by the kind of its argument\<close>

lemma opposite_Str:
  "opposite (Str d) =
     (if d = ''top'' then Inr (Str ''bottom'')
      else if d = ''bottom'' then Inr (Str ''top'')
      else if d = ''right'' then Inr (Str ''left'')
      else if d = ''left'' then Inr (Str ''right'')
      else Inl (Error (''Unknown direction: '' @ [CHR 0x22] @ d @ [CHR 0x22])))"
  by (simp add: opposite_def)

lemma js_lt_zero_length: "js_lt (Num (Fin 0)) (js_length (Arr xs)) = (xs \<noteq> [])"
  by (cases xs) (simp_all add: js_lt_def)

lemma opposite_Arr_Cons:
  "opposite (Arr (x # xs)) =
     (if x = Str ''top'' then Inr (Str ''bottom'')
      else if x = Str ''bottom'' then Inr (Str ''top'')
      else if x = Str ''right'' then Inr (Str ''left'')
      else if x = Str ''left'' then Inr (Str ''right'')
      else Inl (Error (''Unknown direction: '' @ [CHR 0x22] @ to_string (Arr (x # xs)) @
                  [CHR 0x22])))"
  unfolding opposite_def Let_def js_lt_zero_length by simp


subsection \<open>\<^verbatim>\<open>intersection\<close>\<close>

lemma intersection_commute: "intersection a b = intersection b a"
  by (simp add: intersection_def math_max_def math_min_def
      num_max_commute [of "to_number (get_prop a ''top'')"]
      num_max_commute [of "to_number (get_prop a ''left'')"]
      num_min_commute [of "to_number (js_add (get_prop a ''left'') (get_prop a ''width''))"]
      num_min_commute [of "to_number (js_add (get_prop a ''top'') (get_prop a ''height''))"])

subsection \<open>The loop of \<^verbatim>\<open>adjust\<close>\<close>

lemma adjust_loop_find:
  "adjust_loop e tooltip origin first tries =
     (case find (fits e tooltip origin) tries of
        Some c \<Rightarrow> placed e tooltip origin c
      | None \<Rightarrow>
          (if typeof first = ''undefined''
           then (case tries of [] \<Rightarrow> first | c # _ \<Rightarrow> placed e tooltip origin c)
           else first))"
proof (induction tries arbitrary: first)
  case Nil
  show ?case by simp
next
  case (Cons c tries)
  show ?case
  proof (cases "fits e tooltip origin c")
    case True
    then show ?thesis by (simp add: fits_def placed_def Let_def)
  next
    case False
    then have "adjust_loop e tooltip origin first (c # tries) =
        adjust_loop e tooltip origin
          (if typeof first = ''undefined'' then placed e tooltip origin c else first) tries"
      by (simp add: fits_def placed_def Let_def)
    also have "\<dots> = (case find (fits e tooltip origin) tries of
        Some c' \<Rightarrow> placed e tooltip origin c'
      | None \<Rightarrow> (if typeof first = ''undefined'' then placed e tooltip origin c else first))"
      by (simp add: Cons.IH placed_def split: option.splits)
    finally show ?thesis using False by (simp split: option.splits)
  qed
qed

lemma push_opposite_Arr:
  "push_opposite (Arr xs) =
     (if length xs = 1
      then (case opposite (Arr xs) of Inl err \<Rightarrow> Inl err | Inr opp \<Rightarrow> Inr (Arr (xs @ [opp])))
      else Inr (Arr xs))"
  by (simp add: push_opposite_def split: sum.splits)

subsection \<open>The guards of \<^verbatim>\<open>resolve\<close>\<close>

lemma truthy_nested:
  "(truthy ob \<and> truthy (member ob ''payload'') \<and>
    truthy (member (member ob ''payload'') ''name''))
     = truthy (member (member ob ''payload'') ''name'')"
  by (cases ob; cases "member ob ''payload''") auto

lemma truthy_nested2:
  "(truthy ob \<and> truthy (member (member ob ''payload'') ''name''))
     = truthy (member (member ob ''payload'') ''name'')"
  by (cases ob; cases "member ob ''payload''") auto

lemma truthy_direct: "(truthy ob \<and> truthy (member ob ''name'')) = truthy (member ob ''name'')"
  by (cases ob) auto

section \<open>The claims\<close>

subsection \<open>C1: \<^verbatim>\<open>adjust\<close> returns the first candidate that fits\<close>

text \<open>
  C1. Let \<open>xs\<close> be the list given as \<open>place\<close>, or the trimmed pieces of the string
  \<open>place\<close> split on commas when \<open>auto\<close> is set, and let the candidates \<open>cs\<close> be \<open>xs\<close>
  with the opposite of its element appended when \<open>xs\<close> has exactly one element (and
  \<^verbatim>\<open>opposite\<close> returns). Then \<^verbatim>\<open>adjust\<close> returns \<^verbatim>\<open>{offset, place}\<close> for the first
  candidate, from the left, whose placement has no violated edge against the viewport;
  when every candidate overflows it returns the result of the first candidate. (For no
  candidate at all it returns \<^verbatim>\<open>undefined\<close>.)
\<close>

theorem adjust_first_fit:
  assumes "place = Arr xs \<or>
           auto \<and> place = Str s \<and> xs = map (\<lambda>p. Str (trim p)) (split_comma s)"
    and "length xs = 1 \<longrightarrow> opposite (Arr xs) = Inr opp"
    and "cs = (if length xs = 1 then xs @ [opp] else xs)"
  shows "snd (adjust e place tooltip origin auto) =
           Inr (case find (fits e tooltip origin) cs of
                  Some c \<Rightarrow> placed e tooltip origin c
                | None \<Rightarrow> (case cs of [] \<Rightarrow> Undefined | c # _ \<Rightarrow> placed e tooltip origin c))"
proof -
  have sp: "split_place auto place = Arr xs"
    using assms(1) by (auto simp: split_place_def)
  have po: "push_opposite (Arr xs) = Inr (Arr cs)"
    using assms(2,3) by (simp add: push_opposite_Arr)
  have "snd (adjust e place tooltip origin auto) =
          Inr (adjust_loop e tooltip origin Undefined cs)"
    by (simp add: adjust_def sp po spread_def Let_def)
  then show ?thesis by (simp add: adjust_loop_find)
qed

text \<open>Above an anchor near the top edge the tooltip overflows and below it fits:
  \<^verbatim>\<open>adjust('top', ...)\<close> returns the placement below. Near the top left corner both
  \<^verbatim>\<open>top\<close> and \<^verbatim>\<open>left\<close> overflow: \<^verbatim>\<open>adjust('top,left', ...)\<close> returns the placement
  above.\<close>

theorem adjust_first_fit_witness:
  "snd (adjust viewport1000 (Str ''top'') tooltip_ex anchor_high True) =
     Inr (placed viewport1000 tooltip_ex anchor_high (Str ''bottom'')) \<and>
   \<not> fits viewport1000 tooltip_ex anchor_high (Str ''top'') \<and>
   fits viewport1000 tooltip_ex anchor_high (Str ''bottom'') \<and>
   snd (adjust viewport1000 (Str ''top,left'') tooltip_ex anchor_corner True) =
     Inr (placed viewport1000 tooltip_ex anchor_corner (Str ''top'')) \<and>
   \<not> fits viewport1000 tooltip_ex anchor_corner (Str ''top'') \<and>
   \<not> fits viewport1000 tooltip_ex anchor_corner (Str ''left'')"
proof -
  have a: "Str ''top'' = Arr [Str ''top''] \<or>
           True \<and> Str ''top'' = Str ''top'' \<and>
           [Str ''top''] = map (\<lambda>p. Str (trim p)) (split_comma ''top'')"
    by code_simp
  have b: "length [Str ''top''] = 1 \<longrightarrow> opposite (Arr [Str ''top'']) = Inr (Str ''bottom'')"
    by code_simp
  have c: "[Str ''top'', Str ''bottom''] =
           (if length [Str ''top''] = 1 then [Str ''top''] @ [Str ''bottom''] else [Str ''top''])"
    by simp
  have f1: "\<not> fits viewport1000 tooltip_ex anchor_high (Str ''top'')" by code_simp
  have f2: "fits viewport1000 tooltip_ex anchor_high (Str ''bottom'')" by code_simp
  have a': "Str ''top,left'' = Arr [Str ''top'', Str ''left''] \<or>
           True \<and> Str ''top,left'' = Str ''top,left'' \<and>
           [Str ''top'', Str ''left''] = map (\<lambda>p. Str (trim p)) (split_comma ''top,left'')"
    by code_simp
  have b': "length [Str ''top'', Str ''left''] = 1 \<longrightarrow>
            opposite (Arr [Str ''top'', Str ''left'']) = Inr Undefined"
    by simp
  have c': "[Str ''top'', Str ''left''] =
           (if length [Str ''top'', Str ''left''] = 1
            then [Str ''top'', Str ''left''] @ [Undefined] else [Str ''top'', Str ''left''])"
    by simp
  have g1: "\<not> fits viewport1000 tooltip_ex anchor_corner (Str ''top'')" by code_simp
  have g2: "\<not> fits viewport1000 tooltip_ex anchor_corner (Str ''left'')" by code_simp
  from adjust_first_fit [OF a b c, of viewport1000 tooltip_ex anchor_high]
    adjust_first_fit [OF a' b' c', of viewport1000 tooltip_ex anchor_corner] f1 f2 g1 g2
  show ?thesis by simp
qed

subsection \<open>C2: the offsets of \<^verbatim>\<open>placement\<close>\<close>

text \<open>At the anchor and the tooltip of the example, \<^verbatim>\<open>placement('top', ...)\<close> gives
  \<^verbatim>\<open>left = "110px"\<close> (100 + 25 - 15), not \<^verbatim>\<open>"105px"\<close>.\<close>

theorem placement_top_counterexample:
  "position viewport1000 anchor_ex = anchor_ex \<and>
   r_width (position viewport1000 tooltip_ex) = Fin 30 \<and>
   r_height (position viewport1000 tooltip_ex) = Fin 10 \<and>
   get_prop (placement viewport1000 (Str ''top'') tooltip_ex anchor_ex) ''left'' = Str ''110px'' \<and>
   get_prop (placement viewport1000 (Str ''top'') tooltip_ex anchor_ex) ''left'' \<noteq> Str ''105px''"
  by code_simp

text \<open>
  C2, amended. With \<open>tip\<close> and \<open>pos\<close> the positions of the tooltip and of the origin,
  \<^verbatim>\<open>placement\<close> returns, for each of the four directions, the object holding the
  tooltip's width and height, then the centred cross-axis property (\<open>left\<close> for top and
  bottom, \<open>top\<close> for left and right: the start of \<open>pos\<close> plus half its extent minus half
  the extent of \<open>tip\<close>), then the main-axis property with the gap of 12; each value is the
  number followed by \<^verbatim>\<open>px\<close>. When the origin is at
  \<^verbatim>\<open>{top:100, left:100, width:50, height:20}\<close> and the tooltip has size
  \<^verbatim>\<open>{width:30, height:10}\<close>, \<^verbatim>\<open>placement('top', ...)\<close> has \<^verbatim>\<open>left = "110px"\<close> and
  \<^verbatim>\<open>top = "78px"\<close>.
\<close>

theorem placement_offsets:
  "(let tip = position e tooltip; pos = position e origin;
        w = (''width'', Num (r_width tip)); h = (''height'', Num (r_height tip));
        centre_left =
          px (num_sub (num_add (r_left pos) (half (r_width pos))) (half (r_width tip)));
        centre_top =
          px (num_sub (num_add (r_top pos) (half (r_height pos))) (half (r_height tip)))
    in placement e (Str ''top'') tooltip origin =
         [w, h, (''left'', centre_left),
          (''top'', px (num_sub (num_sub (r_top pos) (r_height tip)) (Fin 12)))] \<and>
       placement e (Str ''bottom'') tooltip origin =
         [w, h, (''left'', centre_left),
          (''top'', px (num_add (num_add (r_top pos) (r_height pos)) (Fin 12)))] \<and>
       placement e (Str ''right'') tooltip origin =
         [w, h, (''top'', centre_top), (''left'', px (num_add (r_right pos) (Fin 12)))] \<and>
       placement e (Str ''left'') tooltip origin =
         [w, h, (''top'', centre_top),
          (''left'', px (num_sub (num_sub (r_left pos) (r_width tip)) (Fin 12)))]) \<and>
   (\<forall>x. px x = Str (num_to_string x @ ''px'')) \<and>
   (position e origin = anchor_ex \<and> r_width (position e tooltip) = Fin 30 \<and>
    r_height (position e tooltip) = Fin 10 \<longrightarrow>
      get_prop (placement e (Str ''top'') tooltip origin) ''left'' = Str ''110px'' \<and>
      get_prop (placement e (Str ''top'') tooltip origin) ''top'' = Str ''78px'')"
proof -
  have ex: "get_prop (placement e (Str ''top'') tooltip origin) ''left'' = Str ''110px'' \<and>
      get_prop (placement e (Str ''top'') tooltip origin) ''top'' = Str ''78px''"
    if "position e origin = anchor_ex" "r_width (position e tooltip) = Fin 30"
      "r_height (position e tooltip) = Fin 10"
    using that
    by (simp add: placement_def Let_def get_prop_def anchor_ex_def num_sub_def px_110 px_78)
  have gen: "(let tip = position e tooltip; pos = position e origin;
        w = (''width'', Num (r_width tip)); h = (''height'', Num (r_height tip));
        centre_left =
          px (num_sub (num_add (r_left pos) (half (r_width pos))) (half (r_width tip)));
        centre_top =
          px (num_sub (num_add (r_top pos) (half (r_height pos))) (half (r_height tip)))
    in placement e (Str ''top'') tooltip origin =
         [w, h, (''left'', centre_left),
          (''top'', px (num_sub (num_sub (r_top pos) (r_height tip)) (Fin 12)))] \<and>
       placement e (Str ''bottom'') tooltip origin =
         [w, h, (''left'', centre_left),
          (''top'', px (num_add (num_add (r_top pos) (r_height pos)) (Fin 12)))] \<and>
       placement e (Str ''right'') tooltip origin =
         [w, h, (''top'', centre_top), (''left'', px (num_add (r_right pos) (Fin 12)))] \<and>
       placement e (Str ''left'') tooltip origin =
         [w, h, (''top'', centre_top),
          (''left'', px (num_sub (num_sub (r_left pos) (r_width tip)) (Fin 12)))])"
    by (simp add: placement_def Let_def num_mul_half)
  from ex gen show ?thesis by (simp add: px_def)
qed

theorem placement_offsets_witness:
  "position viewport1000 anchor_ex = anchor_ex \<and>
   r_width (position viewport1000 tooltip_ex) = Fin 30 \<and>
   r_height (position viewport1000 tooltip_ex) = Fin 10 \<and>
   get_prop (placement viewport1000 (Str ''top'') tooltip_ex anchor_ex) ''left'' = Str ''110px'' \<and>
   get_prop (placement viewport1000 (Str ''top'') tooltip_ex anchor_ex) ''top'' = Str ''78px''"
proof -
  have a: "position viewport1000 anchor_ex = anchor_ex" by code_simp
  have b: "r_width (position viewport1000 tooltip_ex) = Fin 30" by code_simp
  have c: "r_height (position viewport1000 tooltip_ex) = Fin 10" by code_simp
  from placement_offsets [of viewport1000 tooltip_ex anchor_ex] a b c show ?thesis by blast
qed

subsection \<open>C3: \<^verbatim>\<open>overDirs\<close> against the viewport\<close>

text \<open>
  C3. Without a boundary element, the amended area has top and left 0, the width of the
  window as right and its height as bottom, and \<^verbatim>\<open>overDirs\<close> returns, in the order top,
  right, bottom, left, exactly the edges \<open>d\<close> whose inequality holds of the amended
  tooltip offset: \<open>tip.top < 0\<close>, \<open>width < tip.right\<close>, \<open>height < tip.bottom\<close>,
  \<open>tip.left < 0\<close>, each on its own. In a window of 1000 by 1000, an offset whose amended
  top is -5 and whose other three edges are within bounds gives exactly \<^verbatim>\<open>['top']\<close>.
\<close>

theorem overDirs_viewport:
  "get_prop (amend (defaultArea e)) ''top'' = Num (Fin 0) \<and>
   get_prop (amend (defaultArea e)) ''left'' = Num (Fin 0) \<and>
   get_prop (amend (defaultArea e)) ''right'' = Num (innerWidth e) \<and>
   get_prop (amend (defaultArea e)) ''bottom'' = Num (innerHeight e) \<and>
   overDirs e tip None =
     filter (violated e (amend tip)) [''top'', ''right'', ''bottom'', ''left''] \<and>
   (innerWidth e = Fin 1000 \<and> innerHeight e = Fin 1000 \<and>
    get_prop (amend tip) ''top'' = Num (Fin (- 5)) \<and>
    \<not> js_lt (Num (Fin 1000)) (get_prop (amend tip) ''right'') \<and>
    \<not> js_lt (Num (Fin 1000)) (get_prop (amend tip) ''bottom'') \<and>
    \<not> js_lt (get_prop (amend tip) ''left'') (Num (Fin 0)) \<longrightarrow>
      overDirs e tip None = [''top''])"
proof -
  have flt: "overDirs e tip None =
      filter (violated e (amend tip)) [''top'', ''right'', ''bottom'', ''left'']"
    using area_amended [of e] by (simp add: overDirs_def Let_def violated_def)
  have above: "overDirs e tip None = [''top'']"
    if "innerWidth e = Fin 1000" "innerHeight e = Fin 1000"
      "get_prop (amend tip) ''top'' = Num (Fin (- 5))"
      "\<not> js_lt (Num (Fin 1000)) (get_prop (amend tip) ''right'')"
      "\<not> js_lt (Num (Fin 1000)) (get_prop (amend tip) ''bottom'')"
      "\<not> js_lt (get_prop (amend tip) ''left'') (Num (Fin 0))"
    using that by (simp add: flt violated_def js_lt_def)
  from area_amended [of e] flt above show ?thesis by blast
qed

theorem overDirs_viewport_witness:
  "get_prop (amend offset_above) ''top'' = Num (Fin (- 5)) \<and>
   overDirs viewport1000 offset_above None = [''top'']"
proof -
  have a: "innerWidth viewport1000 = Fin 1000" by code_simp
  have b: "innerHeight viewport1000 = Fin 1000" by code_simp
  have c: "get_prop (amend offset_above) ''top'' = Num (Fin (- 5))" by code_simp
  have d: "\<not> js_lt (Num (Fin 1000)) (get_prop (amend offset_above) ''right'')" by code_simp
  have f: "\<not> js_lt (Num (Fin 1000)) (get_prop (amend offset_above) ''bottom'')" by code_simp
  have g: "\<not> js_lt (get_prop (amend offset_above) ''left'') (Num (Fin 0))" by code_simp
  from overDirs_viewport [of viewport1000 offset_above] a b c d f g show ?thesis by blast
qed

subsection \<open>C4: \<^verbatim>\<open>opposite\<close> is an involution on the directions\<close>

text \<open>
  C4. For each of the four directions \<open>d\<close>, \<^verbatim>\<open>opposite\<close> returns a direction whose
  opposite is \<open>d\<close> again (top and bottom, right and left are exchanged), and on a list
  that starts with \<open>d\<close> it returns what it returns on \<open>d\<close>, whatever follows.
\<close>

theorem opposite_involution:
  assumes "d \<in> set directions"
  shows "(case opposite (Str d) of Inl err \<Rightarrow> False | Inr d' \<Rightarrow> opposite d' = Inr (Str d)) \<and>
         opposite (Arr (Str d # rest)) = opposite (Str d) \<and>
         opposite (Str ''top'') = Inr (Str ''bottom'') \<and>
         opposite (Str ''bottom'') = Inr (Str ''top'') \<and>
         opposite (Str ''right'') = Inr (Str ''left'') \<and>
         opposite (Str ''left'') = Inr (Str ''right'')"
  using assms by (auto simp: directions_def opposite_Str opposite_Arr_Cons)

theorem opposite_involution_witness:
  "''right'' \<in> set directions \<and>
   opposite (Str ''right'') = Inr (Str ''left'') \<and>
   opposite (Str ''left'') = Inr (Str ''right'') \<and>
   opposite (Arr [Str ''right'', Str ''top'']) = Inr (Str ''left'')"
proof -
  have h: "''right'' \<in> set directions" by (simp add: directions_def)
  from opposite_involution [OF h, of "[Str ''top'']"] h show ?thesis
    by (simp add: opposite_Str)
qed

subsection \<open>C5: \<^verbatim>\<open>opposite\<close> fails on everything else\<close>




subsection \<open>C6: what \<^verbatim>\<open>amend\<close> fills in and derives\<close>

text \<open>
  C6. For a rectangle with numeric left, width, top and height and no right and bottom
  property, \<^verbatim>\<open>amend\<close> sets right to left + width and bottom to top + height. A top or a
  left that is not a number after stripping becomes 0. The width and the height are never
  derived: they are what \<^verbatim>\<open>strip\<close> left, and an absent one stays absent.
\<close>

theorem amend_fills_and_derives:
  "(get_prop r ''left'' = Num l \<and> get_prop r ''width'' = Num w \<and>
    get_prop r ''top'' = Num t \<and> get_prop r ''height'' = Num h \<and>
    map_of r ''right'' = None \<and> map_of r ''bottom'' = None \<longrightarrow>
      get_prop (amend r) ''right'' = Num (num_add l w) \<and>
      get_prop (amend r) ''bottom'' = Num (num_add t h)) \<and>
   (typeof (get_prop (strip r) ''top'') \<noteq> ''number'' \<longrightarrow>
      get_prop (amend r) ''top'' = Num (Fin 0)) \<and>
   (typeof (get_prop (strip r) ''left'') \<noteq> ''number'' \<longrightarrow>
      get_prop (amend r) ''left'' = Num (Fin 0)) \<and>
   get_prop (amend r) ''width'' = get_prop (strip r) ''width'' \<and>
   get_prop (amend r) ''height'' = get_prop (strip r) ''height'' \<and>
   (map_of r ''width'' = None \<longrightarrow> get_prop (amend r) ''width'' = Undefined) \<and>
   (map_of r ''height'' = None \<longrightarrow> get_prop (amend r) ''height'' = Undefined)"
proof -
  have derive: "get_prop (amend r) ''right'' = Num (num_add l w) \<and>
      get_prop (amend r) ''bottom'' = Num (num_add t h)"
    if "get_prop r ''left'' = Num l" "get_prop r ''width'' = Num w"
      "get_prop r ''top'' = Num t" "get_prop r ''height'' = Num h"
      "map_of r ''right'' = None" "map_of r ''bottom'' = None"
    using that
    by (simp add: amend_right amend_bottom amend_left amend_top get_strip get_prop_absent
        js_add_Num)
  show ?thesis
    using derive
    by (simp add: amend_top amend_left amend_width amend_height get_strip get_prop_absent)
qed

text \<open>A rectangle with left, width, top and height only; one with neither top nor left;
  one with left, right, top and bottom, which gets no width and no height.\<close>

theorem amend_fills_and_derives_witness:
  "amend [(''left'', Num (Fin 3)), (''width'', Num (Fin 4)), (''top'', Num (Fin 5)),
          (''height'', Num (Fin 6))] =
     [(''left'', Num (Fin 3)), (''width'', Num (Fin 4)), (''top'', Num (Fin 5)),
      (''height'', Num (Fin 6)), (''right'', Num (Fin 7)), (''bottom'', Num (Fin 11))] \<and>
   get_prop (amend [(''width'', Num (Fin 4))]) ''top'' = Num (Fin 0) \<and>
   get_prop (amend [(''width'', Num (Fin 4))]) ''left'' = Num (Fin 0) \<and>
   get_prop (amend [(''left'', Num (Fin 1)), (''right'', Num (Fin 9)), (''top'', Num (Fin 2)),
                    (''bottom'', Num (Fin 8))]) ''width'' = Undefined \<and>
   get_prop (amend [(''left'', Num (Fin 1)), (''right'', Num (Fin 9)), (''top'', Num (Fin 2)),
                    (''bottom'', Num (Fin 8))]) ''height'' = Undefined"
proof -
  let ?r = "[(''left'', Num (Fin 3)), (''width'', Num (Fin 4)), (''top'', Num (Fin 5)),
          (''height'', Num (Fin 6))]"
  let ?q = "[(''width'', Num (Fin 4))]"
  let ?p = "[(''left'', Num (Fin 1)), (''right'', Num (Fin 9)), (''top'', Num (Fin 2)),
                    (''bottom'', Num (Fin 8))]"
  have whole: "amend ?r =
     [(''left'', Num (Fin 3)), (''width'', Num (Fin 4)), (''top'', Num (Fin 5)),
      (''height'', Num (Fin 6)), (''right'', Num (Fin 7)), (''bottom'', Num (Fin 11))]"
    by code_simp
  have q1: "typeof (get_prop (strip ?q) ''top'') \<noteq> ''number''" by code_simp
  have q2: "typeof (get_prop (strip ?q) ''left'') \<noteq> ''number''" by code_simp
  have p1: "map_of ?p ''width'' = None" by simp
  have p2: "map_of ?p ''height'' = None" by simp
  from amend_fills_and_derives [of ?q] amend_fills_and_derives [of ?p] whole q1 q2 p1 p2
  show ?thesis by blast
qed

subsection \<open>C7: \<^verbatim>\<open>intersection\<close>\<close>

text \<open>
  C7. For two rectangles with numeric top, left, width and height, \<^verbatim>\<open>intersection\<close>
  returns the larger top and left, the smaller of the two sums left + width as right and
  of the two sums top + height as bottom, and the differences as height and width, which
  are not clamped and may be negative. These sums are the right and the bottom of the
  rectangles: the properties themselves when they hold them, and what \<^verbatim>\<open>amend\<close> derives
  when the properties are absent. \<^verbatim>\<open>intersection(a, b)\<close> equals \<^verbatim>\<open>intersection(b, a)\<close>.
\<close>

theorem intersection_rect:
  assumes "get_prop a ''top'' = Num ta" "get_prop a ''left'' = Num la"
    "get_prop a ''width'' = Num wa" "get_prop a ''height'' = Num ha"
    "get_prop b ''top'' = Num tb" "get_prop b ''left'' = Num lb"
    "get_prop b ''width'' = Num wb" "get_prop b ''height'' = Num hb"
    "ra = num_add la wa" "ba = num_add ta ha" "rb = num_add lb wb" "bb = num_add tb hb"
  shows "intersection a b =
           [(''top'', Num (num_max ta tb)),
            (''right'', Num (num_min ra rb)),
            (''bottom'', Num (num_min ba bb)),
            (''left'', Num (num_max la lb)),
            (''height'', Num (num_sub (num_min ba bb) (num_max ta tb))),
            (''width'', Num (num_sub (num_min ra rb) (num_max la lb)))] \<and>
         (get_prop a ''right'' = Num ra \<and> get_prop b ''right'' = Num rb \<longrightarrow>
            get_prop (intersection a b) ''right'' =
              math_min (get_prop a ''right'') (get_prop b ''right'')) \<and>
         (get_prop a ''bottom'' = Num ba \<and> get_prop b ''bottom'' = Num bb \<longrightarrow>
            get_prop (intersection a b) ''bottom'' =
              math_min (get_prop a ''bottom'') (get_prop b ''bottom'')) \<and>
         (map_of a ''right'' = None \<and> map_of b ''right'' = None \<longrightarrow>
            get_prop (intersection a b) ''right'' =
              math_min (get_prop (amend a) ''right'') (get_prop (amend b) ''right'')) \<and>
         (map_of a ''bottom'' = None \<and> map_of b ''bottom'' = None \<longrightarrow>
            get_prop (intersection a b) ''bottom'' =
              math_min (get_prop (amend a) ''bottom'') (get_prop (amend b) ''bottom'')) \<and>
         intersection a b = intersection b a"
proof -
  have whole: "intersection a b =
           [(''top'', Num (num_max ta tb)),
            (''right'', Num (num_min ra rb)),
            (''bottom'', Num (num_min ba bb)),
            (''left'', Num (num_max la lb)),
            (''height'', Num (num_sub (num_min ba bb) (num_max ta tb))),
            (''width'', Num (num_sub (num_min ra rb) (num_max la lb)))]"
    using assms
    by (simp add: intersection_def get_prop_def js_add_Num js_sub_def math_max_def
        math_min_def)
  have right: "get_prop (intersection a b) ''right'' = Num (num_min ra rb)"
    and bottom: "get_prop (intersection a b) ''bottom'' = Num (num_min ba bb)"
    by (simp_all add: whole get_prop_def)
  have held_r: "get_prop (intersection a b) ''right'' =
      math_min (get_prop a ''right'') (get_prop b ''right'')"
    if "get_prop a ''right'' = Num ra" "get_prop b ''right'' = Num rb"
    using that by (simp add: right math_min_def)
  have held_b: "get_prop (intersection a b) ''bottom'' =
      math_min (get_prop a ''bottom'') (get_prop b ''bottom'')"
    if "get_prop a ''bottom'' = Num ba" "get_prop b ''bottom'' = Num bb"
    using that by (simp add: bottom math_min_def)
  have derived_r: "get_prop (intersection a b) ''right'' =
      math_min (get_prop (amend a) ''right'') (get_prop (amend b) ''right'')"
    if "map_of a ''right'' = None" "map_of b ''right'' = None"
    using that assms
    by (simp add: right math_min_def amend_right amend_left get_strip get_prop_absent
        js_add_Num)
  have derived_b: "get_prop (intersection a b) ''bottom'' =
      math_min (get_prop (amend a) ''bottom'') (get_prop (amend b) ''bottom'')"
    if "map_of a ''bottom'' = None" "map_of b ''bottom'' = None"
    using that assms
    by (simp add: bottom math_min_def amend_bottom amend_top get_strip get_prop_absent
        js_add_Num)
  from whole held_r held_b derived_r derived_b intersection_commute [of a b]
  show ?thesis by blast
qed

text \<open>Two squares of side 10 at (0, 0) and at (20, 20): the width and the height of the
  intersection are -10.\<close>

theorem intersection_rect_witness:
  "intersection rect_a rect_b =
     [(''top'', Num (Fin 20)), (''right'', Num (Fin 10)), (''bottom'', Num (Fin 10)),
      (''left'', Num (Fin 20)), (''height'', Num (Fin (- 10))), (''width'', Num (Fin (- 10)))] \<and>
   get_prop (intersection rect_a rect_b) ''right'' =
     math_min (get_prop rect_a ''right'') (get_prop rect_b ''right'') \<and>
   get_prop (intersection rect_a rect_b) ''bottom'' =
     math_min (get_prop rect_a ''bottom'') (get_prop rect_b ''bottom'') \<and>
   intersection rect_a rect_b = intersection rect_b rect_a"
proof -
  have g: "get_prop rect_a ''top'' = Num (Fin 0)" "get_prop rect_a ''left'' = Num (Fin 0)"
    "get_prop rect_a ''width'' = Num (Fin 10)" "get_prop rect_a ''height'' = Num (Fin 10)"
    "get_prop rect_b ''top'' = Num (Fin 20)" "get_prop rect_b ''left'' = Num (Fin 20)"
    "get_prop rect_b ''width'' = Num (Fin 10)" "get_prop rect_b ''height'' = Num (Fin 10)"
    "Fin 10 = num_add (Fin 0) (Fin 10)" "Fin 10 = num_add (Fin 0) (Fin 10)"
    "Fin 30 = num_add (Fin 20) (Fin 10)" "Fin 30 = num_add (Fin 20) (Fin 10)"
    by (simp_all add: rect_a_def rect_b_def get_prop_def)
  have h: "get_prop rect_a ''right'' = Num (Fin 10)" "get_prop rect_b ''right'' = Num (Fin 30)"
    "get_prop rect_a ''bottom'' = Num (Fin 10)" "get_prop rect_b ''bottom'' = Num (Fin 30)"
    by (simp_all add: rect_a_def rect_b_def get_prop_def)
  have v: "num_max (Fin 0) (Fin 20) = Fin 20" "num_min (Fin 10) (Fin 30) = Fin 10"
    "num_sub (Fin 10) (Fin 20) = Fin (- 10)"
    by (simp_all add: num_max_def num_min_def num_sub_def)
  from intersection_rect [OF g, unfolded v] h show ?thesis by blast
qed

subsection \<open>C8: \<^verbatim>\<open>resolve\<close>\<close>

text \<open>With the empty string as its \<^verbatim>\<open>name\<close>, the field is present, and \<^verbatim>\<open>resolve\<close>
  returns \<^verbatim>\<open>["default"]\<close>, not the list of the empty string.\<close>

theorem resolve_empty_name_counterexample:
  "resolve (Obj [(''name'', Str [])]) = Arr [Str ''default''] \<and>
   resolve_present (Obj [(''name'', Str [])]) = Arr [Str []] \<and>
   resolve (Obj [(''name'', Str [])]) \<noteq> resolve_present (Obj [(''name'', Str [])])"
  by code_simp

text \<open>
  C8, amended. \<^verbatim>\<open>resolve\<close> returns \<^verbatim>\<open>obj.payload.name\<close> when that nested field is truthy
  (not absent and not \<^verbatim>\<open>undefined\<close>, \<^verbatim>\<open>null\<close>, \<^verbatim>\<open>false\<close>, 0, \<open>NaN\<close> or the empty
  string), else \<^verbatim>\<open>obj.name\<close> when that is truthy, else \<^verbatim>\<open>["default"]\<close>; a string result
  is wrapped into a list of one element. \<^verbatim>\<open>resolve({name: "x"})\<close> is \<^verbatim>\<open>["x"]\<close>,
  \<^verbatim>\<open>resolve({payload: {name: ["a", "b"]}})\<close> is \<^verbatim>\<open>["a", "b"]\<close> and \<^verbatim>\<open>resolve({})\<close> is
  \<^verbatim>\<open>["default"]\<close>.
\<close>

theorem resolve_truthy:
  "resolve ob =
     (let nested = member (member ob ''payload'') ''name'';
          direct = member ob ''name'';
          names = (if truthy nested then nested
                   else if truthy direct then direct
                   else Arr [Str ''default''])
      in case names of Str s \<Rightarrow> Arr [Str s] | _ \<Rightarrow> names) \<and>
   resolve (Obj [(''name'', Str ''x'')]) = Arr [Str ''x''] \<and>
   resolve (Obj [(''payload'', Obj [(''name'', Arr [Str ''a'', Str ''b''])])]) =
     Arr [Str ''a'', Str ''b''] \<and>
   resolve (Obj []) = Arr [Str ''default'']"
proof -
  have wrap: "(if typeof v = ''string'' then Arr [v] else v) =
      (case v of Str s \<Rightarrow> Arr [Str s] | _ \<Rightarrow> v)" for v
    by (cases v) simp_all
  have "resolve ob =
     (let nested = member (member ob ''payload'') ''name'';
          direct = member ob ''name'';
          names = (if truthy nested then nested
                   else if truthy direct then direct
                   else Arr [Str ''default''])
      in case names of Str s \<Rightarrow> Arr [Str s] | _ \<Rightarrow> names)"
    unfolding resolve_def Let_def wrap
    by (simp add: truthy_nested truthy_nested2 truthy_direct)
  moreover have "resolve (Obj [(''name'', Str ''x'')]) = Arr [Str ''x'']" by code_simp
  moreover have "resolve (Obj [(''payload'', Obj [(''name'', Arr [Str ''a'', Str ''b''])])]) =
     Arr [Str ''a'', Str ''b'']" by code_simp
  moreover have "resolve (Obj []) = Arr [Str ''default'']" by code_simp
  ultimately show ?thesis by blast
qed

theorem resolve_truthy_witness:
  "resolve (Obj [(''payload'', Obj [(''name'', Str ''tip'')]), (''name'', Str ''other'')]) =
     Arr [Str ''tip''] \<and>
   resolve (Obj [(''payload'', Obj [(''name'', Str [])]), (''name'', Str ''other'')]) =
     Arr [Str ''other'']"
proof -
  let ?a = "Obj [(''payload'', Obj [(''name'', Str ''tip'')]), (''name'', Str ''other'')]"
  let ?b = "Obj [(''payload'', Obj [(''name'', Str [])]), (''name'', Str ''other'')]"
  have a: "(let nested = member (member ?a ''payload'') ''name'';
          direct = member ?a ''name'';
          names = (if truthy nested then nested
                   else if truthy direct then direct
                   else Arr [Str ''default''])
      in case names of Str s \<Rightarrow> Arr [Str s] | _ \<Rightarrow> names) = Arr [Str ''tip'']"
    by code_simp
  have b: "(let nested = member (member ?b ''payload'') ''name'';
          direct = member ?b ''name'';
          names = (if truthy nested then nested
                   else if truthy direct then direct
                   else Arr [Str ''default''])
      in case names of Str s \<Rightarrow> Arr [Str s] | _ \<Rightarrow> names) = Arr [Str ''other'']"
    by code_simp
  from resolve_truthy [of ?a] resolve_truthy [of ?b] a b
  show ?thesis by simp
qed

subsection \<open>C9: \<^verbatim>\<open>adjust\<close> changes a caller's list of one element\<close>

text \<open>
  C9. When the caller passes a list of exactly one element (whose opposite exists), the
  caller's list holds that element and its opposite after \<^verbatim>\<open>adjust\<close>; a list of any
  other length is as it was. A string that is split gives a new list, and the caller's
  string is as it was.
\<close>

theorem adjust_mutates_single:
  "(opposite (Arr [x]) = Inr opp \<longrightarrow>
      fst (adjust e (Arr [x]) tooltip origin auto) = Arr [x, opp]) \<and>
   (length xs \<noteq> 1 \<longrightarrow> fst (adjust e (Arr xs) tooltip origin auto) = Arr xs) \<and>
   fst (adjust e (Str s) tooltip origin True) = Str s"
proof -
  have one: "fst (adjust e (Arr [x]) tooltip origin auto) = Arr [x, opp]"
    if "opposite (Arr [x]) = Inr opp"
    using that by (simp add: adjust_def split_place_def push_opposite_Arr spread_def Let_def)
  have other: "fst (adjust e (Arr xs) tooltip origin auto) = Arr xs" if "length xs \<noteq> 1"
    using that by (simp add: adjust_def split_place_def push_opposite_Arr spread_def Let_def)
  have str: "fst (adjust e (Str s) tooltip origin True) = Str s"
    by (simp add: adjust_def split_place_def push_opposite_Arr spread_def Let_def
        split: sum.splits)
  from one other str show ?thesis by blast
qed

theorem adjust_mutates_single_witness:
  "fst (adjust viewport1000 (Arr [Str ''top'']) tooltip_ex anchor_ex True) =
     Arr [Str ''top'', Str ''bottom''] \<and>
   fst (adjust viewport1000 (Arr [Str ''top'', Str ''left'']) tooltip_ex anchor_ex True) =
     Arr [Str ''top'', Str ''left'']"
proof -
  have a: "opposite (Arr [Str ''top'']) = Inr (Str ''bottom'')" by code_simp
  have b: "length [Str ''top'', Str ''left''] \<noteq> 1" by simp
  from adjust_mutates_single [of "Str ''top''" "Str ''bottom''" viewport1000 tooltip_ex
      anchor_ex True "[Str ''top'', Str ''left'']"] a b
  show ?thesis by simp
qed

subsection \<open>C10: a string that does not parse goes through as \<open>NaN\<close>\<close>

text \<open>
  C10. When the top of a rectangle is a string whose number, after \<^verbatim>\<open>px\<close> is removed,
  \<^verbatim>\<open>parseFloat\<close> reads as \<open>NaN\<close>, then \<^verbatim>\<open>strip\<close> makes the top \<open>NaN\<close>, \<^verbatim>\<open>amend\<close>
  keeps it (it does not put 0 there), and the bottom, when \<^verbatim>\<open>amend\<close> derives it, is
  \<open>NaN\<close> too. The same holds of left and right.
\<close>

theorem strip_nan_propagates:
  "(get_prop r ''top'' = Str s \<and> parseFloat (replace_px s) = NaN \<longrightarrow>
      get_prop (strip r) ''top'' = Num NaN \<and> get_prop (amend r) ''top'' = Num NaN \<and>
      (typeof (get_prop (strip r) ''bottom'') \<noteq> ''number'' \<and>
       typeof (get_prop (strip r) ''height'') = ''number'' \<longrightarrow>
         get_prop (amend r) ''bottom'' = Num NaN)) \<and>
   (get_prop r ''left'' = Str s \<and> parseFloat (replace_px s) = NaN \<longrightarrow>
      get_prop (strip r) ''left'' = Num NaN \<and> get_prop (amend r) ''left'' = Num NaN \<and>
      (typeof (get_prop (strip r) ''right'') \<noteq> ''number'' \<and>
       typeof (get_prop (strip r) ''width'') = ''number'' \<longrightarrow>
         get_prop (amend r) ''right'' = Num NaN))"
  by (auto simp: amend_top amend_left amend_right amend_bottom get_strip typeof_number_iff
      js_add_Num)

theorem strip_nan_propagates_witness:
  "parseFloat (replace_px ''autopx'') = NaN \<and>
   amend [(''top'', Str ''autopx''), (''height'', Num (Fin 10))] =
     [(''top'', Num NaN), (''height'', Num (Fin 10)), (''left'', Num (Fin 0)),
      (''bottom'', Num NaN)] \<and>
   get_prop (amend [(''left'', Str ''autopx''), (''width'', Num (Fin 10))]) ''left'' = Num NaN \<and>
   get_prop (amend [(''left'', Str ''autopx''), (''width'', Num (Fin 10))]) ''right'' = Num NaN"
proof -
  let ?r = "[(''top'', Str ''autopx''), (''height'', Num (Fin 10))]"
  let ?q = "[(''left'', Str ''autopx''), (''width'', Num (Fin 10))]"
  have p: "parseFloat (replace_px ''autopx'') = NaN" by code_simp
  have whole: "amend ?r =
     [(''top'', Num NaN), (''height'', Num (Fin 10)), (''left'', Num (Fin 0)),
      (''bottom'', Num NaN)]" by code_simp
  have q1: "get_prop ?q ''left'' = Str ''autopx''" by code_simp
  have q2: "typeof (get_prop (strip ?q) ''right'') \<noteq> ''number''" by code_simp
  have q3: "typeof (get_prop (strip ?q) ''width'') = ''number''" by code_simp
  from strip_nan_propagates [of ?q "''autopx''"] p whole q1 q2 q3
  show ?thesis by blast
qed

end
